theory Spec2Isabelle
  imports Complex_Main "HOL-Library.Word" "HOL-Library.AList"
begin

section \<open>The WebAssembly runtime wrapper (class WebAssemblyRuntime)\<close>

text \<open>
  The class keeps two JavaScript \<open>Map\<close>s, \<open>moduleCache\<close> and \<open>activeInstances\<close>, and
  delegates compilation, instantiation and execution to an embedded engine. The model
  below follows the TypeScript method by method. A \<open>Map\<close> is an association list with
  distinct keys: \<open>Map.set\<close> is \<open>AList.update\<close> (an existing key keeps its place, a new
  key goes to the end), \<open>Map.delete\<close> is \<open>AList.delete\<close>, \<open>Map.get\<close> is \<open>map_of\<close>.
  What the class cannot decide itself (the SHA-256 digest, the file system, the engine,
  the clock, the random generator) is a parameter.
\<close>

subsection \<open>Buffers and thrown errors\<close>

type_synonym byte = "8 word"
type_synonym buffer = "byte list"

text \<open>
  Every \<open>throw\<close> of the source is a value of \<open>error\<close>; the constructor stands for the
  \<open>Error\<close> object and its message:
  \<^item> \<open>WrongMagic\<close>: 'Invalid WebAssembly binary: wrong magic number';
  \<^item> \<open>UnsupportedVersion v\<close>: 'Unsupported WebAssembly version: v';
  \<^item> \<open>FileTooSmall\<close>: 'File too small to be a valid WebAssembly module';
  \<^item> \<open>FileWrongMagic\<close>: 'Invalid WebAssembly file: wrong magic number';
  \<^item> \<open>FileTooLarge\<close>: 'WebAssembly file too large (max 100MB)';
  \<^item> \<open>OutOfRange\<close>: the RangeError of \<open>Buffer.readUInt32LE\<close> reading past the end;
  \<^item> \<open>ModuleNotFound m\<close>: 'Module m not found';
  \<^item> \<open>FunctionNotFound f\<close>: 'Function f not found in module';
  \<^item> \<open>WasiStartNotAFunction\<close>: the TypeError of calling the missing method \<open>wasi.start\<close>;
  \<^item> \<open>MessageOfNullish\<close>: the TypeError of reading the property \<open>message\<close> of \<open>null\<close>
    or \<open>undefined\<close>;
  \<^item> \<open>External msg\<close>: an error raised outside the class (file system, engine, guest)
    with message \<open>msg\<close>;
  \<^item> \<open>LoadFailed e\<close>: 'Failed to load WebAssembly module: ' followed by the message
    of \<open>e\<close>.
\<close>

datatype error =
    WrongMagic
  | UnsupportedVersion nat
  | FileTooSmall
  | FileWrongMagic
  | FileTooLarge
  | OutOfRange
  | ModuleNotFound string
  | FunctionNotFound string
  | WasiStartNotAFunction
  | MessageOfNullish
  | External string
  | LoadFailed error

text \<open>
  \<open>buffer.readUInt32LE(offset)\<close>: the four bytes at \<open>offset\<close>, least significant
  first, as an unsigned number; a RangeError when \<open>offset + 4\<close> exceeds the length.
\<close>

definition readUInt32LE :: "buffer \<Rightarrow> nat \<Rightarrow> error + nat" where
  "readUInt32LE buf offset =
     (if length buf < offset + 4 then Inl OutOfRange
      else Inr (unat (buf ! offset)
              + unat (buf ! (offset + 1)) * 2 ^ 8
              + unat (buf ! (offset + 2)) * 2 ^ 16
              + unat (buf ! (offset + 3)) * 2 ^ 24))"

subsection \<open>Binary validation\<close>

text \<open>\<open>WebAssemblyRuntime.validateWasmBinary\<close>: returns normally or throws.\<close>

definition validateWasmBinary :: "buffer \<Rightarrow> error + unit" where
  "validateWasmBinary buf =
     (case readUInt32LE buf 0 of
        Inl e \<Rightarrow> Inl e
      | Inr magic \<Rightarrow>
          if magic \<noteq> 0x6d736100 then Inl WrongMagic
          else (case readUInt32LE buf 4 of
                  Inl e \<Rightarrow> Inl e
                | Inr version \<Rightarrow>
                    if version \<noteq> 1 then Inl (UnsupportedVersion version)
                    else Inr ()))"

text \<open>
  The sibling validator of the upload path, \<open>validateWasmFile\<close> of the file storage
  class: the same two header checks between a length check and a size check.
\<close>

definition validateWasmFile :: "buffer \<Rightarrow> error + unit" where
  "validateWasmFile file =
     (if length file < 8 then Inl FileTooSmall
      else (case readUInt32LE file 0 of
              Inl e \<Rightarrow> Inl e
            | Inr magic \<Rightarrow>
                if magic \<noteq> 0x6d736100 then Inl FileWrongMagic
                else (case readUInt32LE file 4 of
                        Inl e \<Rightarrow> Inl e
                      | Inr version \<Rightarrow>
                          if version \<noteq> 1 then Inl (UnsupportedVersion version)
                          else if length file > 100 * 1024 * 1024 then Inl FileTooLarge
                          else Inr ())))"

text \<open>The eight header bytes of a version 1 module: \<open>\0asm\<close> and \<open>01 00 00 00\<close>.\<close>

definition wasm_header :: buffer where
  "wasm_header = [0x00, 0x61, 0x73, 0x6d, 0x01, 0x00, 0x00, 0x00]"

subsection \<open>Values, configuration and the engine\<close>

text \<open>Host values (\<open>any\<close> in the source), as far as the class looks at them.\<close>

datatype jsval = JNull | JUndefined | JBool bool | JNum int | JStr string

text \<open>
  JavaScript can throw any value. What the engine, an import or a guest function throws
  is an object with a \<open>message\<close> (an \<open>Error\<close>, \<open>ErrorObj\<close>) or a value without one
  (\<open>Value\<close>), \<open>null\<close> and \<open>undefined\<close> included.
\<close>

datatype thrown = ErrorObj error | Value jsval

text \<open>
  How an awaited call or a block ends: with a value, with something thrown, or not at
  all (the promise never settles, the call never returns).
\<close>

datatype 'a attempt = Ok 'a | Raise thrown | Hang

text \<open>
  \<open>WasmModuleConfig\<close> and \<open>WasmExecutionConfig\<close>; the second has the fields of the
  first and \<open>imports\<close> (here \<open>config_imports\<close>). Every field is optional.
\<close>

record module_config =
  memory :: "(nat \<times> nat) option"
  maxExecutionTime :: "nat option"
  maxInstructions :: "nat option"
  enableWasi :: "bool option"

record exec_config = module_config +
  config_imports :: "(string \<times> jsval) list"

text \<open>
  A call of a guest function returns a value, throws (a trap), or does not return.
\<close>

datatype outcome = Returns jsval | Throws thrown | Diverges

text \<open>
  An instance as the class uses it: \<open>instance.get(name)\<close> is the exported function or
  undefined, \<open>instance.exports.memory.buffer.byteLength\<close> is \<open>exports_memory\<close> when a
  memory is exported.
\<close>

record wasm_instance =
  get :: "string \<Rightarrow> (jsval list \<Rightarrow> outcome) option"
  exports_memory :: "nat option"

text \<open>The object \<open>createWasi\<close> returns: three empty fields and no method.\<close>

record wasi =
  wasi_args :: "string list"
  wasi_env :: "(string \<times> string) list"
  wasi_preopens :: "(string \<times> string) list"

definition createWasi :: wasi where
  "createWasi = \<lparr>wasi_args = [], wasi_env = [], wasi_preopens = []\<rparr>"

text \<open>
  The collaborators: \<open>sha256hex\<close> is the hexadecimal SHA-256 digest of a byte string,
  \<open>readFile\<close> is \<open>fs.readFile\<close>, \<open>engine_module\<close> is \<open>engine.module\<close> (compilation) and
  \<open>engine_instantiate\<close> is the awaited \<open>engine.instantiate\<close> with the
  \<open>wasi_snapshot_preview1\<close> entry and the spread imports; instantiation runs code of
  the module, so it can also throw anything or not settle. \<open>'m\<close> is the engine's
  compiled module.
\<close>

record 'm host =
  sha256hex :: "buffer \<Rightarrow> string"
  readFile :: "string \<Rightarrow> error + buffer"
  engine_module :: "buffer \<Rightarrow> error + 'm"
  engine_instantiate ::
    "'m \<Rightarrow> wasi option \<Rightarrow> (string \<times> jsval) list \<Rightarrow> wasm_instance attempt"

subsection \<open>The state of the runtime object\<close>

record 'm cache_entry =
  cached_module :: 'm
  config :: module_config
  loadedAt :: nat
  size_bytes :: nat

text \<open>
  An entry of \<open>activeInstances\<close>. The object literal of \<open>executeFunction\<close> has the
  fields \<open>instance\<close>, \<open>moduleId\<close>, \<open>functionName\<close> and \<open>createdAt\<close>; \<open>getStats\<close> also
  reads a property \<open>memoryUsed\<close> (here \<open>entry_memoryUsed\<close>), which is \<open>None\<close>
  (undefined) when the object lacks it.
\<close>

record active_entry =
  inst :: wasm_instance
  moduleId :: string
  functionName :: string
  createdAt :: nat
  entry_memoryUsed :: "nat option"

text \<open>
  \<open>compiles\<close> is not a field of the class: it counts the calls of \<open>engine.module\<close>, so
  that "compiled again" can be stated.
\<close>

record 'm runtime =
  moduleCache :: "(string \<times> 'm cache_entry) list"
  activeInstances :: "(string \<times> active_entry) list"
  compiles :: nat

definition initial :: "'m runtime" where
  "initial = \<lparr>moduleCache = [], activeInstances = [], compiles = 0\<rparr>"

definition has :: "(string \<times> 'v) list \<Rightarrow> string \<Rightarrow> bool" where
  "has m k = (map_of m k \<noteq> None)"

subsection \<open>Identifiers\<close>

text \<open>A module is loaded from a buffer or from a path.\<close>

datatype wasmData = Buf buffer | Path string

text \<open>
  \<open>generateModuleId\<close>: the first 16 hexadecimal digits of the SHA-256 digest of the
  buffer, or of the bytes of the path string itself when a path is given.
\<close>

definition generateModuleId :: "'m host \<Rightarrow> wasmData \<Rightarrow> string" where
  "generateModuleId h wasmData =
     take 16 (sha256hex h (case wasmData of Buf b \<Rightarrow> b | Path p \<Rightarrow> map of_char p))"

text \<open>Decimal digits of a number, as a template string prints it.\<close>

fun show_nat :: "nat \<Rightarrow> string" where
  "show_nat n =
     (if n < 10 then [''0123456789'' ! n]
      else show_nat (n div 10) @ [''0123456789'' ! (n mod 10)])"

declare show_nat.simps [simp del]

text \<open>\<open>generateInstanceId\<close>; \<open>now\<close> is the reading of \<open>Date.now()\<close>.\<close>

definition generateInstanceId :: "string \<Rightarrow> string \<Rightarrow> nat \<Rightarrow> string" where
  "generateInstanceId mid fname now = mid @ ''-'' @ fname @ ''-'' @ show_nat now"

subsection \<open>Loading a module\<close>

text \<open>
  \<open>loadModule\<close>. \<open>now\<close> is the reading of the clock for \<open>loadedAt\<close>. Whatever is thrown
  inside the \<open>try\<close> is thrown again wrapped (\<open>LoadFailed\<close>); the cache is written only
  after the engine has compiled the buffer. Here \<open>fs.readFile\<close> and \<open>engine.module\<close>
  are taken to settle and to reject with \<open>Error\<close> objects only.
\<close>

definition loadModule ::
  "'m host \<Rightarrow> nat \<Rightarrow> wasmData \<Rightarrow> module_config \<Rightarrow> 'm runtime \<Rightarrow> (error + string) \<times> 'm runtime" where
  "loadModule h now wasmData cfg s =
     (let mid = generateModuleId h wasmData in
      if has (moduleCache s) mid then (Inr mid, s)
      else
        (case (case wasmData of Path p \<Rightarrow> readFile h p | Buf b \<Rightarrow> Inr b) of
           Inl e \<Rightarrow> (Inl (LoadFailed e), s)
         | Inr wasmBuffer \<Rightarrow>
             (case validateWasmBinary wasmBuffer of
                Inl e \<Rightarrow> (Inl (LoadFailed e), s)
              | Inr _ \<Rightarrow>
                  (case engine_module h wasmBuffer of
                     Inl e \<Rightarrow> (Inl (LoadFailed e), s\<lparr>compiles := compiles s + 1\<rparr>)
                   | Inr wasmModule \<Rightarrow>
                       (Inr mid,
                        s\<lparr>compiles := compiles s + 1,
                          moduleCache :=
                            AList.update mid
                              \<lparr>cached_module = wasmModule, config = cfg, loadedAt = now,
                               size_bytes = length wasmBuffer\<rparr>
                              (moduleCache s)\<rparr>)))))"

text \<open>
  \<open>loadModule\<close> is an \<open>async\<close> function: other calls can run while it waits at
  \<open>await this.engine.module(wasmBuffer)\<close>. The two halves of the method around that
  \<open>await\<close>: \<open>loadModule_start\<close> runs up to it and has either finished (\<open>Inr\<close>) or
  started a compilation and is suspended (\<open>Inl\<close>, with what the second half needs);
  \<open>loadModule_resume\<close> runs from the \<open>await\<close> to the end. (With a path, the first half
  also waits for \<open>fs.readFile\<close>; that wait is not split off here.)
\<close>

record 'm pending_load =
  pending_id :: string
  pending_config :: module_config
  pending_size :: nat
  pending_compiled :: "error + 'm"

definition loadModule_start ::
  "'m host \<Rightarrow> wasmData \<Rightarrow> module_config \<Rightarrow> 'm runtime
     \<Rightarrow> ('m pending_load + (error + string)) \<times> 'm runtime" where
  "loadModule_start h wasmData cfg s =
     (let mid = generateModuleId h wasmData in
      if has (moduleCache s) mid then (Inr (Inr mid), s)
      else
        (case (case wasmData of Path p \<Rightarrow> readFile h p | Buf b \<Rightarrow> Inr b) of
           Inl e \<Rightarrow> (Inr (Inl (LoadFailed e)), s)
         | Inr wasmBuffer \<Rightarrow>
             (case validateWasmBinary wasmBuffer of
                Inl e \<Rightarrow> (Inr (Inl (LoadFailed e)), s)
              | Inr _ \<Rightarrow>
                  (Inl \<lparr>pending_id = mid, pending_config = cfg,
                        pending_size = length wasmBuffer,
                        pending_compiled = engine_module h wasmBuffer\<rparr>,
                   s\<lparr>compiles := compiles s + 1\<rparr>))))"

definition loadModule_resume ::
  "nat \<Rightarrow> 'm pending_load \<Rightarrow> 'm runtime \<Rightarrow> (error + string) \<times> 'm runtime" where
  "loadModule_resume now p s =
     (case pending_compiled p of
        Inl e \<Rightarrow> (Inl (LoadFailed e), s)
      | Inr wasmModule \<Rightarrow>
          (Inr (pending_id p),
           s\<lparr>moduleCache :=
               AList.update (pending_id p)
                 \<lparr>cached_module = wasmModule, config = pending_config p, loadedAt = now,
                  size_bytes = pending_size p\<rparr>
                 (moduleCache s)\<rparr>))"

subsection \<open>Executing a function\<close>

text \<open>
  \<open>createInstance\<close>. With \<open>enableWasi\<close> the object of \<open>createWasi\<close> is passed to the
  engine and then \<open>wasi.start(instance)\<close> is called on it; the object has no \<open>start\<close>, so
  that call throws a TypeError.
\<close>

definition createInstance :: "'m host \<Rightarrow> 'm \<Rightarrow> exec_config \<Rightarrow> wasm_instance attempt" where
  "createInstance h m cfg =
     (let wasi = (if enableWasi cfg = Some True then Some createWasi else None) in
      case engine_instantiate h m wasi (config_imports cfg) of
        Raise t \<Rightarrow> Raise t
      | Hang \<Rightarrow> Hang
      | Ok instance \<Rightarrow>
          if wasi \<noteq> None then Raise (ErrorObj WasiStartNotAFunction) else Ok instance)"

text \<open>\<open>WasmExecutionResult\<close>.\<close>

record exec_result =
  result :: jsval
  executionTime :: int
  memoryUsed :: nat
  instructions :: nat
  success :: bool
  error :: "error option"

text \<open>
  What \<open>executeFunction\<close> reads from outside during one call: \<open>Date.now()\<close> on entry, in
  \<open>generateInstanceId\<close> and after the guest call, \<open>new Date()\<close> for \<open>createdAt\<close>, and
  \<open>Math.floor(Math.random() * 100000)\<close>.
\<close>

record readings =
  startTime :: nat
  idTime :: nat
  createdTime :: nat
  endTime :: nat
  random :: nat

definition getMemoryUsage :: "wasm_instance \<Rightarrow> nat" where
  "getMemoryUsage instance = (case exports_memory instance of Some n \<Rightarrow> n | None \<Rightarrow> 0)"

definition getInstructionCount :: "readings \<Rightarrow> wasm_instance \<Rightarrow> nat" where
  "getInstructionCount rd instance = random rd + 1000"

text \<open>The \<open>try\<close> block of \<open>executeFunction\<close>, with the state it leaves.\<close>

definition executeFunction_try ::
  "'m host \<Rightarrow> readings \<Rightarrow> string \<Rightarrow> string \<Rightarrow> jsval list \<Rightarrow> exec_config \<Rightarrow> 'm runtime
     \<Rightarrow> exec_result attempt \<times> 'm runtime" where
  "executeFunction_try h rd mid fname args cfg s =
     (case map_of (moduleCache s) mid of
        None \<Rightarrow> (Raise (ErrorObj (ModuleNotFound mid)), s)
      | Some cachedModule \<Rightarrow>
          (case createInstance h (cached_module cachedModule) cfg of
             Raise t \<Rightarrow> (Raise t, s)
           | Hang \<Rightarrow> (Hang, s)
           | Ok instance \<Rightarrow>
               (let instanceId = generateInstanceId mid fname (idTime rd);
                    s1 = s\<lparr>activeInstances :=
                            AList.update instanceId
                              \<lparr>inst = instance, moduleId = mid, functionName = fname,
                               createdAt = createdTime rd, entry_memoryUsed = None\<rparr>
                              (activeInstances s)\<rparr>
                in case get instance fname of
                     None \<Rightarrow> (Raise (ErrorObj (FunctionNotFound fname)), s1)
                   | Some func \<Rightarrow>
                       (case func args of
                          Throws t \<Rightarrow> (Raise t, s1)
                        | Diverges \<Rightarrow> (Hang, s1)
                        | Returns v \<Rightarrow>
                            (Ok \<lparr>result = v,
                                 executionTime = int (endTime rd) - int (startTime rd),
                                 memoryUsed = getMemoryUsage instance,
                                 instructions = getInstructionCount rd instance,
                                 success = True, error = None\<rparr>,
                             s1\<lparr>activeInstances :=
                                  AList.delete instanceId (activeInstances s1)\<rparr>)))))"

text \<open>
  The expression \<open>error.message\<close> of the \<open>catch\<close> block: the message of an \<open>Error\<close>,
  \<open>undefined\<close> (\<open>None\<close>) for a value without that property, and a TypeError of its own
  when the caught value is \<open>null\<close> or \<open>undefined\<close>.
\<close>

definition read_message :: "thrown \<Rightarrow> error + error option" where
  "read_message t =
     (case t of
        ErrorObj e \<Rightarrow> Inr (Some e)
      | Value v \<Rightarrow> if v = JNull \<or> v = JUndefined then Inl MessageOfNullish else Inr None)"

text \<open>
  \<open>executeFunction\<close>: the \<open>try\<close> block and its \<open>catch\<close>. What the \<open>catch\<close> block
  itself throws leaves the method.
\<close>

definition executeFunction ::
  "'m host \<Rightarrow> readings \<Rightarrow> string \<Rightarrow> string \<Rightarrow> jsval list \<Rightarrow> exec_config \<Rightarrow> 'm runtime
     \<Rightarrow> exec_result attempt \<times> 'm runtime" where
  "executeFunction h rd mid fname args cfg s =
     (case executeFunction_try h rd mid fname args cfg s of
        (Raise t, s') \<Rightarrow>
          (case read_message t of
             Inl e \<Rightarrow> (Raise (ErrorObj e), s')
           | Inr msg \<Rightarrow>
               (Ok \<lparr>result = JNull, executionTime = 0, memoryUsed = 0, instructions = 0,
                    success = False, error = msg\<rparr>, s'))
      | (r, s') \<Rightarrow> (r, s'))"

text \<open>
  Two facts about the collaborators of one call, read off along the path the \<open>try\<close>
  block takes: whether one of its two awaited calls (\<open>engine.instantiate\<close>, the guest
  function) does not settle, and what \<open>createInstance\<close> or the guest function throws,
  if anything.
\<close>

definition does_not_settle ::
  "'m host \<Rightarrow> string \<Rightarrow> string \<Rightarrow> jsval list \<Rightarrow> exec_config \<Rightarrow> 'm runtime \<Rightarrow> bool" where
  "does_not_settle h mid fname args cfg s =
     (case map_of (moduleCache s) mid of
        None \<Rightarrow> False
      | Some cachedModule \<Rightarrow>
          (case createInstance h (cached_module cachedModule) cfg of
             Hang \<Rightarrow> True
           | Raise t \<Rightarrow> False
           | Ok instance \<Rightarrow>
               (case get instance fname of
                  None \<Rightarrow> False
                | Some func \<Rightarrow> func args = Diverges)))"

definition thrown_inside ::
  "'m host \<Rightarrow> string \<Rightarrow> string \<Rightarrow> jsval list \<Rightarrow> exec_config \<Rightarrow> 'm runtime \<Rightarrow> thrown option" where
  "thrown_inside h mid fname args cfg s =
     (case map_of (moduleCache s) mid of
        None \<Rightarrow> None
      | Some cachedModule \<Rightarrow>
          (case createInstance h (cached_module cachedModule) cfg of
             Hang \<Rightarrow> None
           | Raise t \<Rightarrow> Some t
           | Ok instance \<Rightarrow>
               (case get instance fname of
                  None \<Rightarrow> None
                | Some func \<Rightarrow> (case func args of Throws t \<Rightarrow> Some t | _ \<Rightarrow> None))))"

subsection \<open>Statistics and housekeeping\<close>

definition calculateCacheHitRate :: "'m runtime \<Rightarrow> real" where
  "calculateCacheHitRate s = 0.95"

record stats =
  loadedModules :: nat
  activeInstances_count :: nat
  totalMemoryUsage :: nat
  cacheHitRate :: real

text \<open>\<open>getStats\<close>; the field \<open>activeInstances\<close> of the snapshot is \<open>activeInstances_count\<close>.\<close>

definition getStats :: "'m runtime \<Rightarrow> stats" where
  "getStats s =
     (let total = foldl (\<lambda>total instance.
                     total + (case entry_memoryUsed instance of Some n \<Rightarrow> n | None \<Rightarrow> 0))
                   0 (map snd (activeInstances s))
      in \<lparr>loadedModules = length (moduleCache s),
          activeInstances_count = length (activeInstances s),
          totalMemoryUsage = total,
          cacheHitRate = calculateCacheHitRate s\<rparr>)"

definition clearCache :: "'m runtime \<Rightarrow> 'm runtime" where
  "clearCache s = s\<lparr>moduleCache := []\<rparr>"

text \<open>
  \<open>cleanupInstances\<close>: goes through the entries and deletes those created more than
  five minutes before \<open>now\<close>.
\<close>

definition cleanupInstances :: "nat \<Rightarrow> 'm runtime \<Rightarrow> 'm runtime" where
  "cleanupInstances now s =
     s\<lparr>activeInstances :=
         fold (\<lambda>(id, instance) m.
                 if int now - int (createdAt instance) > 5 * 60 * 1000
                 then AList.delete id m else m)
              (activeInstances s) (activeInstances s)\<rparr>"

subsection \<open>Reachable states and derived notions\<close>

text \<open>
  The states the runtime object can be in: the initial one and those any of the public
  methods, or one half of \<open>loadModule\<close>, leads to, with any collaborators and inputs.
\<close>

inductive reachable :: "'m runtime \<Rightarrow> bool" where
  reach_initial: "reachable initial"
| reach_load: "reachable s \<Longrightarrow> reachable (snd (loadModule h now wasmData cfg s))"
| reach_load_start: "reachable s \<Longrightarrow> reachable (snd (loadModule_start h wasmData cfg s))"
| reach_load_resume: "reachable s \<Longrightarrow> reachable (snd (loadModule_resume now p s))"
| reach_execute: "reachable s \<Longrightarrow> reachable (snd (executeFunction h rd mid fname args xcfg s))"
| reach_clear: "reachable s \<Longrightarrow> reachable (clearCache s)"
| reach_cleanup: "reachable s \<Longrightarrow> reachable (cleanupInstances now s)"

text \<open>
  The class stores no reference count. The live references to a module are the entries
  of \<open>activeInstances\<close> that were created from it.
\<close>

definition referenceCount :: "'m runtime \<Rightarrow> string \<Rightarrow> nat" where
  "referenceCount s mid = length (filter (\<lambda>(id, e). moduleId e = mid) (activeInstances s))"

text \<open>
  Several callers of \<open>loadModule\<close> with the same data, each running its first half
  before any of them runs its second half; then the second halves, in the same order.
\<close>

fun start_all ::
  "'m host \<Rightarrow> wasmData \<Rightarrow> module_config list \<Rightarrow> 'm runtime
     \<Rightarrow> ('m pending_load + (error + string)) list \<times> 'm runtime" where
  "start_all h wasmData [] s = ([], s)"
| "start_all h wasmData (cfg # cfgs) s =
     (case loadModule_start h wasmData cfg s of
        (r, s1) \<Rightarrow> (case start_all h wasmData cfgs s1 of (rs, s2) \<Rightarrow> (r # rs, s2)))"

fun resume_all ::
  "nat \<Rightarrow> ('m pending_load + (error + string)) list \<Rightarrow> 'm runtime
     \<Rightarrow> (error + string) list \<times> 'm runtime" where
  "resume_all now [] s = ([], s)"
| "resume_all now (Inr r # ps) s =
     (case resume_all now ps s of (rs, s2) \<Rightarrow> (r # rs, s2))"
| "resume_all now (Inl p # ps) s =
     (case loadModule_resume now p s of
        (r, s1) \<Rightarrow> (case resume_all now ps s1 of (rs, s2) \<Rightarrow> (r # rs, s2)))"

definition load_concurrently ::
  "'m host \<Rightarrow> nat \<Rightarrow> wasmData \<Rightarrow> module_config list \<Rightarrow> 'm runtime
     \<Rightarrow> (error + string) list \<times> 'm runtime" where
  "load_concurrently h now wasmData cfgs s =
     (case start_all h wasmData cfgs s of (ps, s1) \<Rightarrow> resume_all now ps s1)"

subsection \<open>A small host for the examples\<close>

text \<open>
  The theorems below hold for every host. The closed examples need one: \<open>stub_digest\<close>
  stands in for the digest (two hexadecimal digits per byte, not SHA-256), the engine
  compiles every buffer to its length, and every instance exports \<open>identity\<close> (returns
  its first argument), \<open>trap\<close> (throws an \<open>Error\<close>), \<open>spin\<close> (does not return),
  \<open>throw_null\<close>, \<open>throw_undefined\<close> and \<open>throw_string\<close> (throw that value), and a
  memory of one page.
\<close>

definition hex_digit :: "nat \<Rightarrow> char" where
  "hex_digit n = ''0123456789abcdef'' ! (n mod 16)"

definition stub_digest :: "buffer \<Rightarrow> string" where
  "stub_digest b = concat (map (\<lambda>w. [hex_digit (unat w div 16), hex_digit (unat w)]) b)"

definition demo_instance :: wasm_instance where
  "demo_instance =
     \<lparr>get = (\<lambda>name.
         if name = ''identity'' then Some (\<lambda>args. Returns (case args of [] \<Rightarrow> JUndefined | a # _ \<Rightarrow> a))
         else if name = ''trap'' then Some (\<lambda>args. Throws (ErrorObj (External ''unreachable'')))
         else if name = ''spin'' then Some (\<lambda>args. Diverges)
         else if name = ''throw_null'' then Some (\<lambda>args. Throws (Value JNull))
         else if name = ''throw_undefined'' then Some (\<lambda>args. Throws (Value JUndefined))
         else if name = ''throw_string'' then Some (\<lambda>args. Throws (Value (JStr ''boom'')))
         else None),
      exports_memory = Some 65536\<rparr>"

definition demo_host :: "nat host" where
  "demo_host =
     \<lparr>sha256hex = stub_digest,
      readFile = (\<lambda>p. Inl (External ''ENOENT'')),
      engine_module = (\<lambda>b. Inr (length b)),
      engine_instantiate = (\<lambda>m w i. Ok demo_instance)\<rparr>"

definition no_module_config :: module_config where
  "no_module_config =
     \<lparr>memory = None, maxExecutionTime = None, maxInstructions = None, enableWasi = None\<rparr>"

definition no_config :: exec_config where
  "no_config =
     \<lparr>memory = None, maxExecutionTime = None, maxInstructions = None, enableWasi = None,
      config_imports = []\<rparr>"

definition demo_readings :: readings where
  "demo_readings =
     \<lparr>startTime = 5000, idTime = 5001, createdTime = 5001, endTime = 5042, random = 7\<rparr>"

text \<open>The state after loading the eight header bytes as a module, and its key.\<close>

definition demo_id :: string where
  "demo_id = ''0061736d01000000''"

definition demo_loaded :: "nat runtime" where
  "demo_loaded =
     \<lparr>moduleCache =
        [(demo_id, \<lparr>cached_module = 8, config = no_module_config, loadedAt = 1000,
                    size_bytes = 8\<rparr>)],
      activeInstances = [], compiles = 1\<rparr>"

text \<open>
  The state after calling \<open>executeFunction\<close> on that module for a function it does not
  export.
\<close>

definition demo_leaked :: "nat runtime" where
  "demo_leaked =
     \<lparr>moduleCache =
        [(demo_id, \<lparr>cached_module = 8, config = no_module_config, loadedAt = 1000,
                    size_bytes = 8\<rparr>)],
      activeInstances =
        [(''0061736d01000000-missing-5001'',
          \<lparr>inst = demo_instance, moduleId = demo_id, functionName = ''missing'',
           createdAt = 5001, entry_memoryUsed = None\<rparr>)],
      compiles = 1\<rparr>"

section \<open>Properties\<close>

subsection \<open>Association lists as maps\<close>

lemma has_update: "has (AList.update k v m) k' = (k' = k \<or> has m k')"
  by (simp add: has_def update_conv')

lemma map_of_update_other: "k' \<noteq> k \<Longrightarrow> map_of (AList.update k v m) k' = map_of m k'"
  by (simp add: update_conv')

lemma set_update_subset: "set (AList.update k v m) \<subseteq> insert (k, v) (set m)"
  by (induction m) auto

lemma set_delete_subset: "set (AList.delete k m) \<subseteq> set m"
  by (auto simp: AList.delete_eq)

lemma set_fold_delete_subset:
  "set (fold (\<lambda>(id, e) m. if P id e then AList.delete id m else m) xs m) \<subseteq> set m"
proof (induction xs arbitrary: m)
  case Nil
  show ?case by simp
next
  case (Cons x xs)
  obtain id e where x: "x = (id, e)" by (cases x)
  show ?case
  proof (cases "P id e")
    case True
    have "set (fold (\<lambda>(id, e) m. if P id e then AList.delete id m else m) xs (AList.delete id m))
            \<subseteq> set (AList.delete id m)"
      by (rule Cons.IH)
    with True x show ?thesis
      using set_delete_subset [of id m] by auto
  next
    case False
    with x Cons.IH [of m] show ?thesis by simp
  qed
qed

subsection \<open>Binary validation\<close>

lemma length_wasm_header: "length wasm_header = 8"
  by (simp add: wasm_header_def)

lemma readUInt32LE_short: "length buf < offset + 4 \<Longrightarrow> readUInt32LE buf offset = Inl OutOfRange"
  by (simp add: readUInt32LE_def)

text \<open>Whatever follows the eight header bytes, \<open>validateWasmBinary\<close> accepts.\<close>

lemma validateWasmBinary_header: "validateWasmBinary (wasm_header @ rest) = Inr ()"
  by (simp add: validateWasmBinary_def readUInt32LE_def wasm_header_def nth_append)

text \<open>
  A buffer of fewer than eight bytes is rejected, by the range check of the read or by
  the comparison of the magic number, whichever comes first.
\<close>

lemma validateWasmBinary_short:
  "length buf < 8 \<Longrightarrow> \<exists>e. validateWasmBinary buf = Inl e"
  by (auto simp: validateWasmBinary_def readUInt32LE_def split: sum.splits)

lemma validateWasmBinary_too_short_for_magic:
  "length buf < 4 \<Longrightarrow> validateWasmBinary buf = Inl OutOfRange"
  by (simp add: validateWasmBinary_def readUInt32LE_def)

text \<open>The validator of the upload path has the length check and the size check.\<close>

lemma validateWasmFile_short: "length file < 8 \<Longrightarrow> validateWasmFile file = Inl FileTooSmall"
  by (simp add: validateWasmFile_def)

lemma validateWasmFile_header:
  "validateWasmFile (wasm_header @ rest) =
     (if length rest + 8 > 100 * 1024 * 1024 then Inl FileTooLarge else Inr ())"
  by (simp add: validateWasmFile_def readUInt32LE_def wasm_header_def nth_append)

text \<open>
  Claim C3: validation checks, in order, a length of at least 8 bytes, the magic number,
  the version and a maximum size, and rejects every oversized buffer with a reason.
  \<open>validateWasmBinary\<close> has neither the length check nor the size check: a buffer of
  the eight header bytes followed by 100 MiB of zeros is larger than the 100 MiB limit of
  the upload path, \<open>validateWasmFile\<close> rejects it as too large, and
  \<open>validateWasmBinary\<close> accepts it.
\<close>

theorem validateWasmBinary_accepts_oversized:
  "length (wasm_header @ replicate (100 * 1024 * 1024) 0) > 100 * 1024 * 1024
   \<and> validateWasmBinary (wasm_header @ replicate (100 * 1024 * 1024) 0) = Inr ()
   \<and> validateWasmFile (wasm_header @ replicate (100 * 1024 * 1024) 0) = Inl FileTooLarge"
  by (simp add: validateWasmBinary_header validateWasmFile_header length_wasm_header)

subsection \<open>The examples\<close>

lemma show_nat_5001: "show_nat 5001 = ''5001''"
  by (simp add: show_nat.simps)

lemma demo_key: "generateModuleId demo_host (Buf wasm_header) = demo_id"
  by (simp add: generateModuleId_def demo_host_def stub_digest_def hex_digit_def
      wasm_header_def demo_id_def)

lemma demo_load:
  "loadModule demo_host 1000 (Buf wasm_header) no_module_config initial = (Inr demo_id, demo_loaded)"
  by (simp add: loadModule_def demo_key Let_def has_def initial_def
      validateWasmBinary_header [of "[]", simplified] demo_loaded_def)
     (simp add: demo_host_def wasm_header_def)

lemma demo_createInstance: "createInstance demo_host m no_config = Ok demo_instance"
  by (simp add: createInstance_def no_config_def demo_host_def)

lemma demo_missing:
  "executeFunction demo_host demo_readings demo_id ''missing'' [] no_config demo_loaded =
     (Ok \<lparr>result = JNull, executionTime = 0, memoryUsed = 0, instructions = 0,
          success = False, error = Some (FunctionNotFound ''missing'')\<rparr>, demo_leaked)"
  by (simp add: executeFunction_def executeFunction_try_def demo_loaded_def demo_createInstance
      generateInstanceId_def demo_readings_def show_nat_5001 demo_leaked_def demo_id_def
      read_message_def)
     (simp add: demo_instance_def read_message_def)

lemma reachable_demo_loaded: "reachable demo_loaded"
  using reach_load [OF reach_initial, of demo_host 1000 "Buf wasm_header" no_module_config]
  by (simp add: demo_load)

lemma reachable_demo_leaked: "reachable demo_leaked"
  using reach_execute [OF reachable_demo_loaded, of demo_host demo_readings demo_id "''missing''" "[]" no_config]
  by (simp add: demo_missing)

subsection \<open>The paths of \<open>executeFunction\<close>\<close>

lemma try_unknown_module:
  "map_of (moduleCache s) mid = None \<Longrightarrow>
   executeFunction_try h rd mid fname args cfg s = (Raise (ErrorObj (ModuleNotFound mid)), s)"
  by (simp add: executeFunction_try_def)

lemma try_instantiate_throws:
  "map_of (moduleCache s) mid = Some c \<Longrightarrow> createInstance h (cached_module c) cfg = Raise t \<Longrightarrow>
   executeFunction_try h rd mid fname args cfg s = (Raise t, s)"
  by (simp add: executeFunction_try_def)

lemma try_instantiate_hangs:
  "map_of (moduleCache s) mid = Some c \<Longrightarrow> createInstance h (cached_module c) cfg = Hang \<Longrightarrow>
   executeFunction_try h rd mid fname args cfg s = (Hang, s)"
  by (simp add: executeFunction_try_def)

lemma try_missing_export:
  "map_of (moduleCache s) mid = Some c \<Longrightarrow> createInstance h (cached_module c) cfg = Ok i \<Longrightarrow>
   get i fname = None \<Longrightarrow>
   fst (executeFunction_try h rd mid fname args cfg s) = Raise (ErrorObj (FunctionNotFound fname))"
  by (simp add: executeFunction_try_def Let_def)

lemma try_guest_throws:
  "map_of (moduleCache s) mid = Some c \<Longrightarrow> createInstance h (cached_module c) cfg = Ok i \<Longrightarrow>
   get i fname = Some f \<Longrightarrow> f args = Throws t \<Longrightarrow>
   fst (executeFunction_try h rd mid fname args cfg s) = Raise t"
  by (simp add: executeFunction_try_def Let_def)

lemma try_guest_diverges:
  "map_of (moduleCache s) mid = Some c \<Longrightarrow> createInstance h (cached_module c) cfg = Ok i \<Longrightarrow>
   get i fname = Some f \<Longrightarrow> f args = Diverges \<Longrightarrow>
   fst (executeFunction_try h rd mid fname args cfg s) = Hang"
  by (simp add: executeFunction_try_def Let_def)

lemma try_guest_returns:
  "map_of (moduleCache s) mid = Some c \<Longrightarrow> createInstance h (cached_module c) cfg = Ok i \<Longrightarrow>
   get i fname = Some f \<Longrightarrow> f args = Returns v \<Longrightarrow>
   fst (executeFunction_try h rd mid fname args cfg s) =
     Ok \<lparr>result = v, executionTime = int (endTime rd) - int (startTime rd),
         memoryUsed = getMemoryUsage i, instructions = getInstructionCount rd i,
         success = True, error = None\<rparr>"
  by (simp add: executeFunction_try_def Let_def)

lemma try_Ok_success:
  "fst (executeFunction_try h rd mid fname args cfg s) = Ok r \<Longrightarrow> success r"
  by (auto simp: executeFunction_try_def Let_def
      split: option.splits attempt.splits outcome.splits)

text \<open>
  The \<open>try\<close> block does not end exactly when one of the two awaited calls does not
  settle, and what it throws is the class's own error for an unknown module or a missing
  export, or what \<open>createInstance\<close> or the guest function throws.
\<close>

lemma try_Hang_iff:
  "fst (executeFunction_try h rd mid fname args cfg s) = Hang \<longleftrightarrow>
   does_not_settle h mid fname args cfg s"
  by (auto simp: executeFunction_try_def does_not_settle_def Let_def
      split: option.splits attempt.splits outcome.splits)

lemma try_Raise_cases:
  "fst (executeFunction_try h rd mid fname args cfg s) = Raise t \<Longrightarrow>
   t = ErrorObj (ModuleNotFound mid) \<or> t = ErrorObj (FunctionNotFound fname)
   \<or> thrown_inside h mid fname args cfg s = Some t"
  by (auto simp: executeFunction_try_def thrown_inside_def Let_def
      split: option.splits attempt.splits outcome.splits)

lemma try_thrown_inside:
  "thrown_inside h mid fname args cfg s = Some t \<Longrightarrow>
   fst (executeFunction_try h rd mid fname args cfg s) = Raise t"
  by (auto simp: executeFunction_try_def thrown_inside_def Let_def
      split: option.splits attempt.splits outcome.splits)

lemma read_message_simps:
  "read_message (ErrorObj e) = Inr (Some e)"
  "read_message (Value JNull) = Inl MessageOfNullish"
  "read_message (Value JUndefined) = Inl MessageOfNullish"
  "v \<noteq> JNull \<Longrightarrow> v \<noteq> JUndefined \<Longrightarrow> read_message (Value v) = Inr None"
  by (simp_all add: read_message_def)

lemma executeFunction_fst:
  "fst (executeFunction h rd mid fname args cfg s) =
     (case fst (executeFunction_try h rd mid fname args cfg s) of
        Raise t \<Rightarrow>
          (case read_message t of
             Inl e \<Rightarrow> Raise (ErrorObj e)
           | Inr msg \<Rightarrow>
               Ok \<lparr>result = JNull, executionTime = 0, memoryUsed = 0, instructions = 0,
                   success = False, error = msg\<rparr>)
      | r \<Rightarrow> r)"
  by (simp add: executeFunction_def split: prod.splits attempt.splits sum.splits)

lemma executeFunction_snd:
  "snd (executeFunction h rd mid fname args cfg s) =
   snd (executeFunction_try h rd mid fname args cfg s)"
  by (simp add: executeFunction_def split: prod.splits attempt.splits sum.splits)

lemma try_moduleCache:
  "moduleCache (snd (executeFunction_try h rd mid fname args cfg s)) = moduleCache s"
  by (auto simp: executeFunction_try_def Let_def
      split: option.splits attempt.splits outcome.splits)

lemma try_compiles:
  "compiles (snd (executeFunction_try h rd mid fname args cfg s)) = compiles s"
  by (auto simp: executeFunction_try_def Let_def
      split: option.splits attempt.splits outcome.splits)

lemma try_activeInstances_subset:
  "set (activeInstances (snd (executeFunction_try h rd mid fname args cfg s))) \<subseteq>
     set (activeInstances s) \<union>
     {(k, e). entry_memoryUsed e = None}"
proof -
  have a: "set (AList.update k v m) \<subseteq> set m \<union> {(k, e). entry_memoryUsed e = None}"
    if "entry_memoryUsed v = None" for k v and m :: "(string \<times> active_entry) list"
    using set_update_subset [of k v m] that by auto
  have b: "set (AList.delete k' (AList.update k v m)) \<subseteq> set m \<union> {(k, e). entry_memoryUsed e = None}"
    if "entry_memoryUsed v = None" for k k' v and m :: "(string \<times> active_entry) list"
    using a [OF that, of k m] set_delete_subset [of k' "AList.update k v m"] by blast
  show ?thesis
    by (simp add: executeFunction_try_def Let_def a b
        split: option.splits attempt.splits outcome.splits)
qed

text \<open>
  When the export is missing or the guest throws, the entry written before the call is
  still in \<open>activeInstances\<close> when \<open>executeFunction\<close> ends; when the guest returns,
  it is gone.
\<close>

lemma executeFunction_failure_keeps_entry:
  assumes "map_of (moduleCache s) mid = Some c"
    and "createInstance h (cached_module c) cfg = Ok i"
    and "get i fname = None \<or> (\<exists>f t. get i fname = Some f \<and> f args = Throws t)"
  shows "has (activeInstances (snd (executeFunction h rd mid fname args cfg s)))
           (generateInstanceId mid fname (idTime rd))"
  using assms
  by (auto simp: executeFunction_snd executeFunction_try_def Let_def has_update)

lemma executeFunction_success_removes_entry:
  assumes "fst (executeFunction h rd mid fname args cfg s) = Ok r" and "success r"
  shows "\<not> has (activeInstances (snd (executeFunction h rd mid fname args cfg s)))
           (generateInstanceId mid fname (idTime rd))"
proof -
  from assms have "fst (executeFunction_try h rd mid fname args cfg s) = Ok r"
    by (auto simp: executeFunction_fst split: attempt.splits sum.splits)
  then show ?thesis
    by (auto simp: executeFunction_snd executeFunction_try_def Let_def has_def delete_conv'
        split: option.splits attempt.splits outcome.splits)
qed

subsection \<open>Results and failures of \<open>executeFunction\<close>\<close>

text \<open>
  Claim C1: the instance created for an invocation is removed from the registry by the
  time \<open>executeFunction\<close> returns, on every exit path. The deletion is in the \<open>try\<close>
  block after the guest call, so a \<open>throw\<close> skips it: with the module of the example
  loaded and nothing registered, a call for the function \<open>missing\<close>, which the module
  does not export, returns the failure result and leaves the instance registered.
\<close>

theorem executeFunction_missing_export_leaves_instance:
  "activeInstances demo_loaded = []
   \<and> fst (executeFunction demo_host demo_readings demo_id ''missing'' [] no_config demo_loaded) =
       Ok \<lparr>result = JNull, executionTime = 0, memoryUsed = 0, instructions = 0,
           success = False, error = Some (FunctionNotFound ''missing'')\<rparr>
   \<and> map fst (activeInstances
        (snd (executeFunction demo_host demo_readings demo_id ''missing'' [] no_config demo_loaded))) =
       [''0061736d01000000-missing-5001'']"
  by (simp add: demo_missing) (simp add: demo_loaded_def demo_leaked_def)

lemma demo_try_guest:
  "fst (executeFunction_try demo_host demo_readings demo_id fname args no_config demo_loaded) =
     (case get demo_instance fname of
        None \<Rightarrow> Raise (ErrorObj (FunctionNotFound fname))
      | Some func \<Rightarrow>
          (case func args of
             Throws t \<Rightarrow> Raise t
           | Diverges \<Rightarrow> Hang
           | Returns v \<Rightarrow>
               Ok \<lparr>result = v,
                   executionTime = int (endTime demo_readings) - int (startTime demo_readings),
                   memoryUsed = getMemoryUsage demo_instance,
                   instructions = getInstructionCount demo_readings demo_instance,
                   success = True, error = None\<rparr>))"
  by (simp add: executeFunction_try_def demo_loaded_def demo_createInstance Let_def
      split: option.splits outcome.splits)

lemma demo_get:
  "get demo_instance ''missing'' = None"
  "get demo_instance ''identity'' =
     Some (\<lambda>args. Returns (case args of [] \<Rightarrow> JUndefined | a # _ \<Rightarrow> a))"
  "get demo_instance ''trap'' = Some (\<lambda>args. Throws (ErrorObj (External ''unreachable'')))"
  "get demo_instance ''spin'' = Some (\<lambda>args. Diverges)"
  "get demo_instance ''throw_null'' = Some (\<lambda>args. Throws (Value JNull))"
  "get demo_instance ''throw_undefined'' = Some (\<lambda>args. Throws (Value JUndefined))"
  "get demo_instance ''throw_string'' = Some (\<lambda>args. Throws (Value (JStr ''boom'')))"
  by (simp_all add: demo_instance_def)

text \<open>
  Claim C2, as stated: for every module, function name and argument list
  \<open>executeFunction\<close> returns a result value and never throws past its boundary. In the
  example, the guest function \<open>throw_undefined\<close> throws \<open>undefined\<close>; the \<open>catch\<close> block
  reads \<open>error.message\<close> of it, and that TypeError leaves \<open>executeFunction\<close>. The call
  of \<open>spin\<close>, which does not return, has no result.
\<close>

theorem executeFunction_throws_or_hangs:
  "fst (executeFunction demo_host demo_readings demo_id ''throw_undefined'' [] no_config demo_loaded)
     = Raise (ErrorObj MessageOfNullish)
   \<and> fst (executeFunction demo_host demo_readings demo_id ''spin'' [] no_config demo_loaded) = Hang"
  by (simp add: executeFunction_fst demo_try_guest demo_get read_message_simps)

text \<open>
  Claim C2, amended: \<open>executeFunction\<close> returns a result value whenever its awaited
  calls (instantiation, the guest function) settle and what is thrown inside is not
  \<open>null\<close> or \<open>undefined\<close>, and unless such a value is thrown inside it never throws past
  its boundary. An \<open>Error\<close> thrown inside, a guest trap or another runtime fault, comes
  back as a result with \<open>success = false\<close> and that error, and a function name that the
  instance does not export gives the result with the error \<open>FunctionNotFound\<close>.
\<close>

theorem executeFunction_returns_result:
  "(\<not> does_not_settle h mid fname args cfg s
      \<and> thrown_inside h mid fname args cfg s \<noteq> Some (Value JNull)
      \<and> thrown_inside h mid fname args cfg s \<noteq> Some (Value JUndefined) \<longrightarrow>
       (\<exists>r. fst (executeFunction h rd mid fname args cfg s) = Ok r))
   \<and> (thrown_inside h mid fname args cfg s \<noteq> Some (Value JNull)
      \<and> thrown_inside h mid fname args cfg s \<noteq> Some (Value JUndefined) \<longrightarrow>
       (\<forall>t. fst (executeFunction h rd mid fname args cfg s) \<noteq> Raise t))
   \<and> (thrown_inside h mid fname args cfg s = Some (ErrorObj e) \<longrightarrow>
       (\<exists>r. fst (executeFunction h rd mid fname args cfg s) = Ok r
          \<and> \<not> success r \<and> error r = Some e))
   \<and> (\<forall>c i. map_of (moduleCache s) mid = Some c
          \<and> createInstance h (cached_module c) cfg = Ok i \<and> get i fname = None \<longrightarrow>
       (\<exists>r. fst (executeFunction h rd mid fname args cfg s) = Ok r
          \<and> \<not> success r \<and> error r = Some (FunctionNotFound fname)))"
proof -
  let ?t = "fst (executeFunction_try h rd mid fname args cfg s)"
  let ?x = "fst (executeFunction h rd mid fname args cfg s)"
  let ?ti = "thrown_inside h mid fname args cfg s"
  have raise: "?x \<noteq> Raise t" if n: "?ti \<noteq> Some (Value JNull)" "?ti \<noteq> Some (Value JUndefined)" for t
  proof (cases ?t)
    case (Raise u)
    from try_Raise_cases [OF Raise] n
    have "u \<noteq> Value JNull \<and> u \<noteq> Value JUndefined" by auto
    then have "\<exists>m. read_message u = Inr m"
      by (cases u) (auto simp: read_message_def)
    with Raise show ?thesis by (auto simp: executeFunction_fst)
  qed (simp_all add: executeFunction_fst)
  have 1: "\<not> does_not_settle h mid fname args cfg s
      \<and> ?ti \<noteq> Some (Value JNull) \<and> ?ti \<noteq> Some (Value JUndefined) \<longrightarrow> (\<exists>r. ?x = Ok r)"
  proof (intro impI, elim conjE)
    assume s: "\<not> does_not_settle h mid fname args cfg s"
      and n: "?ti \<noteq> Some (Value JNull)" "?ti \<noteq> Some (Value JUndefined)"
    from s have "?t \<noteq> Hang" by (simp add: try_Hang_iff)
    then have "?x \<noteq> Hang"
      by (auto simp: executeFunction_fst split: attempt.splits sum.splits)
    moreover have "\<forall>t. ?x \<noteq> Raise t" using raise [OF n] by blast
    ultimately show "\<exists>r. ?x = Ok r" by (cases ?x) auto
  qed
  have 2: "?ti \<noteq> Some (Value JNull) \<and> ?ti \<noteq> Some (Value JUndefined) \<longrightarrow> (\<forall>t. ?x \<noteq> Raise t)"
    using raise by blast
  have 3: "?ti = Some (ErrorObj e) \<longrightarrow> (\<exists>r. ?x = Ok r \<and> \<not> success r \<and> error r = Some e)"
    by (auto simp: executeFunction_fst read_message_simps dest: try_thrown_inside [where rd = rd])
  have 4: "\<forall>c i. map_of (moduleCache s) mid = Some c
          \<and> createInstance h (cached_module c) cfg = Ok i \<and> get i fname = None \<longrightarrow>
       (\<exists>r. ?x = Ok r \<and> \<not> success r \<and> error r = Some (FunctionNotFound fname))"
    by (auto simp: executeFunction_fst try_missing_export read_message_simps)
  from 1 2 3 4 show ?thesis by blast
qed

theorem executeFunction_returns_result_witness:
  "\<not> does_not_settle demo_host demo_id ''trap'' [] no_config demo_loaded
   \<and> thrown_inside demo_host demo_id ''trap'' [] no_config demo_loaded =
       Some (ErrorObj (External ''unreachable''))
   \<and> (\<exists>r. fst (executeFunction demo_host demo_readings demo_id ''trap'' [] no_config demo_loaded) = Ok r
          \<and> \<not> success r \<and> error r = Some (External ''unreachable''))
   \<and> (\<forall>t. fst (executeFunction demo_host demo_readings demo_id ''trap'' [] no_config demo_loaded)
          \<noteq> Raise t)"
proof -
  have a: "\<not> does_not_settle demo_host demo_id ''trap'' [] no_config demo_loaded"
    by (simp add: does_not_settle_def demo_loaded_def demo_createInstance demo_get)
  have b: "thrown_inside demo_host demo_id ''trap'' [] no_config demo_loaded =
       Some (ErrorObj (External ''unreachable''))"
    by (simp add: thrown_inside_def demo_loaded_def demo_createInstance demo_get)
  from a b
    executeFunction_returns_result [where h = demo_host and rd = demo_readings and mid = demo_id
      and fname = "''trap''" and args = "[]" and cfg = no_config and s = demo_loaded
      and e = "External ''unreachable''"]
  show ?thesis by simp
qed

text \<open>
  Claim C9, as stated: whenever \<open>executeFunction\<close> fails for any reason, the returned
  result is the fixed failure object with the error message attached. In the example
  the guest function \<open>throw_null\<close> throws \<open>null\<close>: the call fails, and instead of that
  object the TypeError of reading \<open>error.message\<close> comes out; when \<open>throw_string\<close>
  throws a string, the object is returned with \<open>error\<close> undefined.
\<close>

theorem executeFunction_failure_no_message:
  "fst (executeFunction_try demo_host demo_readings demo_id ''throw_null'' [] no_config demo_loaded)
     = Raise (Value JNull)
   \<and> fst (executeFunction demo_host demo_readings demo_id ''throw_null'' [] no_config demo_loaded)
     = Raise (ErrorObj MessageOfNullish)
   \<and> fst (executeFunction demo_host demo_readings demo_id ''throw_string'' [] no_config demo_loaded)
     = Ok \<lparr>result = JNull, executionTime = 0, memoryUsed = 0, instructions = 0,
           success = False, error = None\<rparr>"
  by (simp add: executeFunction_fst demo_try_guest demo_get read_message_simps)

text \<open>
  Claim C9, amended: whenever \<open>executeFunction\<close> fails because an \<open>Error\<close> is thrown
  inside (for an unknown module, a missing export, a guest trap or any other \<open>Error\<close>),
  the returned result is exactly
  \<open>{result: null, executionTime: 0, memoryUsed: 0, instructions: 0, success: false}\<close>
  with that error attached, and \<open>executionTime\<close> is 0 whatever the clock read. When the
  thrown value has no message and is not \<open>null\<close> or \<open>undefined\<close>, the result is the same
  object with \<open>error\<close> undefined. Every result with \<open>success = false\<close> is this object,
  with what \<open>error.message\<close> gave as \<open>error\<close>.
\<close>

theorem executeFunction_failure_result:
  "(fst (executeFunction_try h rd mid fname args cfg s) = Raise (ErrorObj e) \<longrightarrow>
      fst (executeFunction h rd mid fname args cfg s) =
        Ok \<lparr>result = JNull, executionTime = 0, memoryUsed = 0, instructions = 0,
            success = False, error = Some e\<rparr>)
   \<and> (fst (executeFunction_try h rd mid fname args cfg s) = Raise (Value v)
        \<and> v \<noteq> JNull \<and> v \<noteq> JUndefined \<longrightarrow>
      fst (executeFunction h rd mid fname args cfg s) =
        Ok \<lparr>result = JNull, executionTime = 0, memoryUsed = 0, instructions = 0,
            success = False, error = None\<rparr>)
   \<and> (fst (executeFunction h rd mid fname args cfg s) = Ok r \<and> \<not> success r \<longrightarrow>
      (\<exists>t. fst (executeFunction_try h rd mid fname args cfg s) = Raise t
         \<and> read_message t = Inr (error r)
         \<and> r = \<lparr>result = JNull, executionTime = 0, memoryUsed = 0, instructions = 0,
                 success = False, error = error r\<rparr>))
   \<and> (map_of (moduleCache s) mid = None \<longrightarrow>
      fst (executeFunction h rd mid fname args cfg s) =
        Ok \<lparr>result = JNull, executionTime = 0, memoryUsed = 0, instructions = 0,
            success = False, error = Some (ModuleNotFound mid)\<rparr>)
   \<and> (\<forall>c i. map_of (moduleCache s) mid = Some c
         \<and> createInstance h (cached_module c) cfg = Ok i \<and> get i fname = None \<longrightarrow>
      fst (executeFunction h rd mid fname args cfg s) =
        Ok \<lparr>result = JNull, executionTime = 0, memoryUsed = 0, instructions = 0,
            success = False, error = Some (FunctionNotFound fname)\<rparr>)
   \<and> (\<forall>c i f. map_of (moduleCache s) mid = Some c
         \<and> createInstance h (cached_module c) cfg = Ok i
         \<and> get i fname = Some f \<and> f args = Throws (ErrorObj e) \<longrightarrow>
      fst (executeFunction h rd mid fname args cfg s) =
        Ok \<lparr>result = JNull, executionTime = 0, memoryUsed = 0, instructions = 0,
            success = False, error = Some e\<rparr>)"
proof -
  let ?t = "fst (executeFunction_try h rd mid fname args cfg s)"
  let ?x = "fst (executeFunction h rd mid fname args cfg s)"
  let ?fail = "\<lambda>m. Ok \<lparr>result = JNull, executionTime = 0, memoryUsed = 0, instructions = 0,
            success = False, error = m\<rparr>"
  have 1: "?t = Raise (ErrorObj e) \<longrightarrow> ?x = ?fail (Some e)"
    by (simp add: executeFunction_fst read_message_simps)
  have 2: "?t = Raise (Value v) \<and> v \<noteq> JNull \<and> v \<noteq> JUndefined \<longrightarrow> ?x = ?fail None"
    by (simp add: executeFunction_fst read_message_simps)
  have 3: "?x = Ok r \<and> \<not> success r \<longrightarrow>
      (\<exists>t. ?t = Raise t \<and> read_message t = Inr (error r)
         \<and> r = \<lparr>result = JNull, executionTime = 0, memoryUsed = 0, instructions = 0,
                 success = False, error = error r\<rparr>)"
  proof (cases ?t)
    case (Ok r')
    then show ?thesis using try_Ok_success [of h rd mid fname args cfg s r']
      by (auto simp: executeFunction_fst)
  next
    case (Raise t)
    then show ?thesis by (auto simp: executeFunction_fst split: sum.splits)
  next
    case Hang
    then show ?thesis by (simp add: executeFunction_fst)
  qed
  have 4: "map_of (moduleCache s) mid = None \<longrightarrow> ?x = ?fail (Some (ModuleNotFound mid))"
    by (simp add: executeFunction_fst try_unknown_module read_message_simps)
  have 5: "\<forall>c i. map_of (moduleCache s) mid = Some c
         \<and> createInstance h (cached_module c) cfg = Ok i \<and> get i fname = None \<longrightarrow>
      ?x = ?fail (Some (FunctionNotFound fname))"
    by (auto simp: executeFunction_fst try_missing_export read_message_simps)
  have 6: "\<forall>c i f. map_of (moduleCache s) mid = Some c
         \<and> createInstance h (cached_module c) cfg = Ok i
         \<and> get i fname = Some f \<and> f args = Throws (ErrorObj e) \<longrightarrow> ?x = ?fail (Some e)"
    by (auto simp: executeFunction_fst try_guest_throws read_message_simps)
  from 1 2 3 4 5 6 show ?thesis by blast
qed

theorem executeFunction_failure_result_witness:
  "fst (executeFunction_try demo_host demo_readings demo_id ''trap'' [] no_config demo_loaded) =
     Raise (ErrorObj (External ''unreachable''))
   \<and> int (endTime demo_readings) - int (startTime demo_readings) = 42
   \<and> fst (executeFunction demo_host demo_readings demo_id ''trap'' [] no_config demo_loaded) =
        Ok \<lparr>result = JNull, executionTime = 0, memoryUsed = 0, instructions = 0,
            success = False, error = Some (External ''unreachable'')\<rparr>"
proof -
  have a: "fst (executeFunction_try demo_host demo_readings demo_id ''trap'' [] no_config demo_loaded) =
     Raise (ErrorObj (External ''unreachable''))"
    by (simp add: demo_try_guest demo_get)
  have b: "int (endTime demo_readings) - int (startTime demo_readings) = 42"
    by (simp add: demo_readings_def)
  from a b
    executeFunction_failure_result [where h = demo_host and rd = demo_readings and mid = demo_id
      and fname = "''trap''" and args = "[]" and cfg = no_config and s = demo_loaded
      and e = "External ''unreachable''"]
  show ?thesis by blast
qed

subsection \<open>The module cache\<close>

lemma loadModule_hit:
  "has (moduleCache s) (generateModuleId h wasmData) \<Longrightarrow>
   loadModule h now wasmData cfg s = (Inr (generateModuleId h wasmData), s)"
  by (simp add: loadModule_def)

lemma loadModule_Inr:
  "loadModule h now wasmData cfg s = (Inr mid, s1) \<Longrightarrow>
   mid = generateModuleId h wasmData \<and> has (moduleCache s1) mid"
  by (auto simp: loadModule_def Let_def has_update split: if_splits sum.splits)

lemma loadModule_compiles:
  "compiles (snd (loadModule h now wasmData cfg s)) \<le> compiles s + 1"
  by (auto simp: loadModule_def Let_def split: if_splits sum.splits)

lemma loadModule_activeInstances:
  "activeInstances (snd (loadModule h now wasmData cfg s)) = activeInstances s"
  by (auto simp: loadModule_def Let_def split: if_splits sum.splits)

lemma loadModule_keeps_entries:
  "has (moduleCache s) k \<Longrightarrow>
   map_of (moduleCache (snd (loadModule h now wasmData cfg s))) k = map_of (moduleCache s) k"
  by (auto simp: loadModule_def Let_def has_def update_conv' split: if_splits sum.splits)

text \<open>
  Claim C4: the fingerprint determines the cache entry. Two \<open>loadModule\<close> calls with
  the same bytes get the same key, and once the first has succeeded the second returns
  that key and changes nothing, the compile counter included; the same holds in any
  later state that still has the entry.
\<close>

theorem loadModule_same_bytes_cache_hit:
  assumes "loadModule h t1 (Buf bytes) c1 s = (Inr mid, s1)"
  shows "mid = generateModuleId h (Buf bytes)
         \<and> has (moduleCache s1) mid
         \<and> loadModule h t2 (Buf bytes) c2 s1 = (Inr mid, s1)
         \<and> (\<forall>s2. has (moduleCache s2) mid \<longrightarrow>
               loadModule h t2 (Buf bytes) c2 s2 = (Inr mid, s2)
               \<and> compiles (snd (loadModule h t2 (Buf bytes) c2 s2)) = compiles s2)"
proof -
  from assms have k: "mid = generateModuleId h (Buf bytes)" and c: "has (moduleCache s1) mid"
    using loadModule_Inr by blast+
  have hit: "loadModule h t2 (Buf bytes) c2 s2 = (Inr mid, s2)" if "has (moduleCache s2) mid" for s2
    using that k loadModule_hit [of s2 h "Buf bytes" t2 c2] by simp
  from k c hit show ?thesis by simp
qed

theorem loadModule_same_bytes_cache_hit_witness:
  "loadModule demo_host 1000 (Buf wasm_header) no_module_config initial = (Inr demo_id, demo_loaded)
   \<and> compiles demo_loaded = 1
   \<and> loadModule demo_host 2000 (Buf wasm_header) no_module_config demo_loaded = (Inr demo_id, demo_loaded)"
  using loadModule_same_bytes_cache_hit [OF demo_load, of 2000 no_module_config]
  by (simp add: demo_load demo_loaded_def)

subsection \<open>Statistics\<close>

lemma cacheHitRate_constant: "cacheHitRate (getStats s) = 0.95"
  by (simp add: getStats_def calculateCacheHitRate_def Let_def)

text \<open>
  Claim C5: the reported \<open>cacheHitRate\<close> is computed from hit and miss counters and
  increases after a second load of identical bytes. \<open>calculateCacheHitRate\<close> returns
  the constant 0.95 (its comment says it would track the hits and misses): the second
  load of the example is a cache hit, and the rate is 0.95 before and after it.
\<close>

theorem cacheHitRate_unchanged_by_hit:
  "loadModule demo_host 2000 (Buf wasm_header) no_module_config demo_loaded = (Inr demo_id, demo_loaded)
   \<and> cacheHitRate (getStats demo_loaded) = 0.95
   \<and> cacheHitRate (getStats (snd (loadModule demo_host 2000 (Buf wasm_header) no_module_config demo_loaded)))
       = 0.95
   \<and> cacheHitRate (getStats (initial :: nat runtime)) = 0.95"
proof -
  have "has (moduleCache demo_loaded) (generateModuleId demo_host (Buf wasm_header))"
    by (simp add: demo_key has_def demo_loaded_def)
  then have "loadModule demo_host 2000 (Buf wasm_header) no_module_config demo_loaded
               = (Inr demo_id, demo_loaded)"
    using loadModule_hit [of demo_loaded demo_host "Buf wasm_header" 2000 no_module_config]
    by (simp add: demo_key)
  then show ?thesis by (simp add: cacheHitRate_constant)
qed

lemma foldl_memoryUsed_none:
  "\<forall>e \<in> set es. entry_memoryUsed e = None \<Longrightarrow>
   foldl (\<lambda>total instance. total + (case entry_memoryUsed instance of Some n \<Rightarrow> n | None \<Rightarrow> 0))
     a es = a"
  by (induction es arbitrary: a) auto

lemma loadModule_start_activeInstances:
  "activeInstances (snd (loadModule_start h wasmData cfg s)) = activeInstances s"
  by (auto simp: loadModule_start_def Let_def split: if_splits sum.splits)

lemma loadModule_resume_activeInstances:
  "activeInstances (snd (loadModule_resume now p s)) = activeInstances s"
  by (auto simp: loadModule_resume_def split: sum.splits)

lemma cleanupInstances_subset:
  "set (activeInstances (cleanupInstances now s)) \<subseteq> set (activeInstances s)"
  unfolding cleanupInstances_def
  using set_fold_delete_subset
    [of "\<lambda>id instance. int now - int (createdAt instance) > 5 * 60 * 1000"
        "activeInstances s" "activeInstances s"]
  by simp

text \<open>No reachable state has an entry with a \<open>memoryUsed\<close> property.\<close>

lemma reachable_no_memoryUsed:
  "reachable s \<Longrightarrow> \<forall>(k, e) \<in> set (activeInstances s). entry_memoryUsed e = None"
proof (induction rule: reachable.induct)
  case reach_initial
  show ?case by (simp add: initial_def)
next
  case (reach_load s h now wasmData cfg)
  then show ?case by (simp add: loadModule_activeInstances)
next
  case (reach_load_start s h wasmData cfg)
  then show ?case by (simp add: loadModule_start_activeInstances)
next
  case (reach_load_resume s now p)
  then show ?case by (simp add: loadModule_resume_activeInstances)
next
  case (reach_execute s h rd mid fname args xcfg)
  then show ?case
    using try_activeInstances_subset [of h rd mid fname args xcfg s]
    by (auto simp: executeFunction_snd)
next
  case (reach_clear s)
  then show ?case by (simp add: clearCache_def)
next
  case (reach_cleanup s now)
  then show ?case using cleanupInstances_subset [of now s] by auto
qed

text \<open>
  Claim C10: in every reachable state the snapshot reports \<open>totalMemoryUsage = 0\<close>,
  however many instances are registered: no operation writes the \<open>memoryUsed\<close> property
  that the sum reads.
\<close>

theorem getStats_totalMemoryUsage_zero:
  "reachable s \<Longrightarrow> totalMemoryUsage (getStats s) = 0"
proof -
  assume "reachable s"
  then have "\<forall>e \<in> set (map snd (activeInstances s)). entry_memoryUsed e = None"
    using reachable_no_memoryUsed [of s] by auto
  then show ?thesis
    by (simp add: getStats_def Let_def foldl_memoryUsed_none)
qed

theorem getStats_totalMemoryUsage_zero_witness:
  "reachable demo_leaked \<and> activeInstances_count (getStats demo_leaked) = 1
   \<and> totalMemoryUsage (getStats demo_leaked) = 0"
  using getStats_totalMemoryUsage_zero [OF reachable_demo_leaked] reachable_demo_leaked
  by (simp add: getStats_def demo_leaked_def)

subsection \<open>The execution time budget\<close>

lemma createInstance_maxExecutionTime:
  "createInstance h m (cfg\<lparr>maxExecutionTime := t\<rparr>) = createInstance h m cfg"
  by (simp add: createInstance_def)

lemma try_maxExecutionTime:
  "executeFunction_try h rd mid fname args (cfg\<lparr>maxExecutionTime := t\<rparr>) s =
   executeFunction_try h rd mid fname args cfg s"
  by (simp add: executeFunction_try_def createInstance_maxExecutionTime cong: option.case_cong)

text \<open>
  Claim C6, as stated: with a \<open>maxExecutionTime\<close> budget, a guest call that does not
  return is interrupted and the caller receives a TimedOut result. In the example the
  budget is 1 ms and the guest \<open>spin\<close> does not return: \<open>executeFunction\<close> has no
  result at all.
\<close>

theorem executeFunction_budget_no_timeout:
  "fst (executeFunction demo_host demo_readings demo_id ''spin'' []
         (no_config\<lparr>maxExecutionTime := Some 1\<rparr>) demo_loaded) = Hang"
  by (simp add: executeFunction_fst try_maxExecutionTime demo_try_guest demo_get)

text \<open>
  Claim C6, amended: \<open>maxExecutionTime\<close> is carried in the configuration and never
  read. The outcome and the final state of an invocation are the same for every budget,
  and when the guest call does not return, \<open>executeFunction\<close> does not return either,
  whatever the budget: the guest is not interrupted and no TimedOut result is produced.
\<close>

theorem executeFunction_ignores_maxExecutionTime:
  "executeFunction h rd mid fname args (cfg\<lparr>maxExecutionTime := t\<rparr>) s =
     executeFunction h rd mid fname args cfg s
   \<and> (\<forall>c i f. map_of (moduleCache s) mid = Some c
          \<and> createInstance h (cached_module c) cfg = Ok i
          \<and> get i fname = Some f \<and> f args = Diverges \<longrightarrow>
        fst (executeFunction h rd mid fname args (cfg\<lparr>maxExecutionTime := t\<rparr>) s) = Hang)"
proof -
  have 1: "executeFunction h rd mid fname args (cfg\<lparr>maxExecutionTime := t\<rparr>) s =
     executeFunction h rd mid fname args cfg s"
    by (simp add: executeFunction_def try_maxExecutionTime)
  have 2: "fst (executeFunction h rd mid fname args cfg s) = Hang"
    if "map_of (moduleCache s) mid = Some c" "createInstance h (cached_module c) cfg = Ok i"
      "get i fname = Some f" "f args = Diverges" for c i f
    using try_guest_diverges [OF that, of rd] by (simp add: executeFunction_fst)
  from 1 2 show ?thesis by auto
qed

theorem executeFunction_ignores_maxExecutionTime_witness:
  "map_of (moduleCache demo_loaded) demo_id =
     Some \<lparr>cached_module = 8, config = no_module_config, loadedAt = 1000, size_bytes = 8\<rparr>
   \<and> createInstance demo_host 8 no_config = Ok demo_instance
   \<and> get demo_instance ''spin'' = Some (\<lambda>args. Diverges)
   \<and> executeFunction demo_host demo_readings demo_id ''spin'' [JNum 7]
        (no_config\<lparr>maxExecutionTime := Some 50\<rparr>) demo_loaded =
      executeFunction demo_host demo_readings demo_id ''spin'' [JNum 7] no_config demo_loaded
   \<and> fst (executeFunction demo_host demo_readings demo_id ''spin'' [JNum 7]
        (no_config\<lparr>maxExecutionTime := Some 50\<rparr>) demo_loaded) = Hang"
proof -
  have a: "map_of (moduleCache demo_loaded) demo_id =
     Some \<lparr>cached_module = 8, config = no_module_config, loadedAt = 1000, size_bytes = 8\<rparr>"
    by (simp add: demo_loaded_def)
  have b: "createInstance demo_host 8 no_config = Ok demo_instance"
    by (rule demo_createInstance)
  have c: "get demo_instance ''spin'' = Some (\<lambda>args. Diverges)"
    by (rule demo_get)
  from a b c
    executeFunction_ignores_maxExecutionTime
      [where h = demo_host and rd = demo_readings and mid = demo_id and fname = "''spin''"
         and args = "[JNum 7]" and cfg = no_config and t = "Some 50" and s = demo_loaded]
  show ?thesis by auto
qed

subsection \<open>Concurrent loads\<close>

lemma loadModule_phases:
  "loadModule h now wasmData cfg s =
     (case loadModule_start h wasmData cfg s of
        (Inr r, s1) \<Rightarrow> (r, s1)
      | (Inl p, s1) \<Rightarrow> loadModule_resume now p s1)"
  by (simp add: loadModule_def loadModule_start_def loadModule_resume_def Let_def
      split: sum.splits)

lemma loadModule_start_miss:
  assumes "\<not> has (moduleCache s) (generateModuleId h (Buf bytes))"
    and "validateWasmBinary bytes = Inr ()"
  shows "loadModule_start h (Buf bytes) cfg s =
     (Inl \<lparr>pending_id = generateModuleId h (Buf bytes), pending_config = cfg,
           pending_size = length bytes, pending_compiled = engine_module h bytes\<rparr>,
      s\<lparr>compiles := compiles s + 1\<rparr>)"
  using assms by (simp add: loadModule_start_def)

lemma start_all_miss:
  assumes "\<not> has (moduleCache s) (generateModuleId h (Buf bytes))"
    and "validateWasmBinary bytes = Inr ()"
  shows "start_all h (Buf bytes) cfgs s =
     (map (\<lambda>cfg. Inl \<lparr>pending_id = generateModuleId h (Buf bytes), pending_config = cfg,
                      pending_size = length bytes, pending_compiled = engine_module h bytes\<rparr>) cfgs,
      s\<lparr>compiles := compiles s + length cfgs\<rparr>)"
  using assms
proof (induction cfgs arbitrary: s)
  case Nil
  show ?case by simp
next
  case (Cons cfg cfgs)
  have "\<not> has (moduleCache (s\<lparr>compiles := compiles s + 1\<rparr>)) (generateModuleId h (Buf bytes))"
    using Cons.prems(1) by simp
  from Cons.IH [OF this Cons.prems(2)] Cons.prems show ?case
    by (simp add: loadModule_start_miss)
qed

lemma resume_all_compiles: "compiles (snd (resume_all now ps s)) = compiles s"
proof (induction now ps s rule: resume_all.induct)
  case (1 now s)
  show ?case by simp
next
  case (2 now r ps s)
  then show ?case by (auto split: prod.splits)
next
  case (3 now p ps s)
  have "compiles (snd (loadModule_resume now p s)) = compiles s"
    by (simp add: loadModule_resume_def split: sum.splits)
  with 3 show ?case by (auto split: prod.splits)
qed

lemma resume_all_Inl:
  "resume_all now (Inl p # ps) s =
     (fst (loadModule_resume now p s) # fst (resume_all now ps (snd (loadModule_resume now p s))),
      snd (resume_all now ps (snd (loadModule_resume now p s))))"
  by (simp split: prod.splits)

lemma resume_all_Inr:
  "resume_all now (Inr r # ps) s = (r # fst (resume_all now ps s), snd (resume_all now ps s))"
  by (simp split: prod.splits)

lemma loadModule_resume_has:
  "has (moduleCache s) k \<Longrightarrow> has (moduleCache (snd (loadModule_resume now p s))) k"
  by (auto simp: loadModule_resume_def has_update split: sum.splits)

lemma resume_all_has:
  "has (moduleCache s) k \<Longrightarrow> has (moduleCache (snd (resume_all now ps s))) k"
proof (induction now ps s rule: resume_all.induct)
  case (1 now s)
  then show ?case by simp
next
  case (2 now r ps s)
  then show ?case by (auto split: prod.splits)
next
  case (3 now p ps s)
  from 3(2) have "has (moduleCache (snd (loadModule_resume now p s))) k"
    by (rule loadModule_resume_has)
  with 3(1) show ?case by (auto split: prod.splits)
qed

lemma resume_all_compiled:
  "fst (resume_all now
          (map (\<lambda>cfg. Inl \<lparr>pending_id = mid, pending_config = cfg, pending_size = n,
                           pending_compiled = Inr m\<rparr>) cfgs) s) =
     map (\<lambda>cfg. Inr mid) cfgs"
  by (induction cfgs arbitrary: s)
     (simp_all add: resume_all_Inl loadModule_resume_def del: resume_all.simps(2,3))

lemma resume_all_stores:
  "cfgs \<noteq> [] \<Longrightarrow>
   has (moduleCache (snd (resume_all now
          (map (\<lambda>cfg. Inl \<lparr>pending_id = mid, pending_config = cfg, pending_size = n,
                           pending_compiled = Inr m\<rparr>) cfgs) s))) mid"
proof (cases cfgs)
  case Nil
  assume "cfgs \<noteq> []"
  with Nil show ?thesis by simp
next
  case (Cons cfg rest)
  let ?p = "\<lparr>pending_id = mid, pending_config = cfg, pending_size = n,
              pending_compiled = Inr m :: error + 'a\<rparr>"
  have "has (moduleCache (snd (loadModule_resume now ?p s))) mid"
    by (simp add: loadModule_resume_def has_update)
  then have "has (moduleCache (snd (resume_all now
          (map (\<lambda>cfg. Inl \<lparr>pending_id = mid, pending_config = cfg, pending_size = n,
                           pending_compiled = Inr m\<rparr>) rest)
          (snd (loadModule_resume now ?p s))))) mid"
    by (rule resume_all_has)
  with Cons show ?thesis by (simp add: resume_all_Inl del: resume_all.simps(2,3))
qed

text \<open>
  Claim C8, as stated: N concurrent callers with the same never-before-seen bytes cause
  exactly one compilation. Two callers in the example, each doing its lookup before the
  other has stored its record, cause two.
\<close>

theorem load_concurrently_two_compiles:
  "\<not> has (moduleCache (initial :: nat runtime)) (generateModuleId demo_host (Buf wasm_header))
   \<and> compiles (initial :: nat runtime) = 0
   \<and> compiles (snd (load_concurrently demo_host 1000 (Buf wasm_header)
                      [no_module_config, no_module_config] initial)) = 2"
proof -
  have a: "\<not> has (moduleCache (initial :: nat runtime)) (generateModuleId demo_host (Buf wasm_header))"
    by (simp add: has_def initial_def)
  have b: "validateWasmBinary wasm_header = Inr ()"
    using validateWasmBinary_header [of "[]"] by simp
  show ?thesis
    by (simp add: a load_concurrently_def start_all_miss [OF a b] resume_all_compiles
          del: start_all.simps resume_all.simps(2,3))
       (simp add: initial_def)
qed

text \<open>
  Claim C8, amended: \<open>loadModule\<close> has no single-flight. Every call that does not find
  the key in the cache at its lookup starts a compilation of its own: when N calls for
  the same never-before-seen valid bytes each do the lookup before any of them has
  stored its record, N compilations are started, all of them pending at once; when the
  engine compiles the bytes, every call returns the same key and the record is stored
  under it. A single call compiles once.
\<close>

theorem load_concurrently_compiles_per_caller:
  assumes "\<not> has (moduleCache s) (generateModuleId h (Buf bytes))"
    and "validateWasmBinary bytes = Inr ()"
  shows "compiles (snd (start_all h (Buf bytes) cfgs s)) = compiles s + length cfgs
         \<and> fst (start_all h (Buf bytes) cfgs s) =
             map (\<lambda>cfg. Inl \<lparr>pending_id = generateModuleId h (Buf bytes), pending_config = cfg,
                              pending_size = length bytes,
                              pending_compiled = engine_module h bytes\<rparr>) cfgs
         \<and> compiles (snd (load_concurrently h now (Buf bytes) cfgs s)) = compiles s + length cfgs
         \<and> (\<forall>m. engine_module h bytes = Inr m \<longrightarrow>
               fst (load_concurrently h now (Buf bytes) cfgs s) =
                 map (\<lambda>cfg. Inr (generateModuleId h (Buf bytes))) cfgs
               \<and> (cfgs \<noteq> [] \<longrightarrow>
                    has (moduleCache (snd (load_concurrently h now (Buf bytes) cfgs s)))
                      (generateModuleId h (Buf bytes))))
         \<and> compiles (snd (loadModule h now (Buf bytes) cfg s)) = compiles s + 1"
proof -
  note st = start_all_miss [OF assms, of cfgs]
  have 1: "compiles (snd (start_all h (Buf bytes) cfgs s)) = compiles s + length cfgs"
    by (simp add: st)
  have 2: "fst (start_all h (Buf bytes) cfgs s) =
             map (\<lambda>cfg. Inl \<lparr>pending_id = generateModuleId h (Buf bytes), pending_config = cfg,
                              pending_size = length bytes,
                              pending_compiled = engine_module h bytes\<rparr>) cfgs"
    by (simp add: st)
  have 3: "compiles (snd (load_concurrently h now (Buf bytes) cfgs s)) = compiles s + length cfgs"
    by (simp add: load_concurrently_def st resume_all_compiles)
  have 4: "fst (load_concurrently h now (Buf bytes) cfgs s) =
                 map (\<lambda>cfg. Inr (generateModuleId h (Buf bytes))) cfgs
               \<and> (cfgs \<noteq> [] \<longrightarrow>
                    has (moduleCache (snd (load_concurrently h now (Buf bytes) cfgs s)))
                      (generateModuleId h (Buf bytes)))"
    if "engine_module h bytes = Inr m" for m
    using that by (simp add: load_concurrently_def st resume_all_compiled resume_all_stores)
  have 5: "compiles (snd (loadModule h now (Buf bytes) cfg s)) = compiles s + 1"
    using assms by (simp add: loadModule_def Let_def split: sum.splits)
  from 1 2 3 4 5 show ?thesis by blast
qed

theorem load_concurrently_compiles_per_caller_witness:
  "\<not> has (moduleCache (initial :: nat runtime)) (generateModuleId demo_host (Buf wasm_header))
   \<and> validateWasmBinary wasm_header = Inr ()
   \<and> compiles (snd (load_concurrently demo_host 1000 (Buf wasm_header)
                      [no_module_config, no_module_config, no_module_config] initial)) = 3
   \<and> fst (load_concurrently demo_host 1000 (Buf wasm_header)
            [no_module_config, no_module_config, no_module_config] initial) =
        [Inr demo_id, Inr demo_id, Inr demo_id]"
proof -
  have a: "\<not> has (moduleCache (initial :: nat runtime)) (generateModuleId demo_host (Buf wasm_header))"
    by (simp add: has_def initial_def)
  have b: "validateWasmBinary wasm_header = Inr ()"
    using validateWasmBinary_header [of "[]"] by simp
  have c: "engine_module demo_host wasm_header = Inr 8"
    by (simp add: demo_host_def wasm_header_def)
  have d: "compiles (initial :: nat runtime) = 0"
    by (simp add: initial_def)
  from load_concurrently_compiles_per_caller [OF a b,
      of "[no_module_config, no_module_config, no_module_config]" 1000 no_module_config] a b c d
  show ?thesis by (simp add: demo_key del: start_all.simps resume_all.simps(2,3))
qed

subsection \<open>Removal from the module cache\<close>

lemma loadModule_start_moduleCache:
  "moduleCache (snd (loadModule_start h wasmData cfg s)) = moduleCache s"
  by (auto simp: loadModule_start_def Let_def split: if_splits sum.splits)

lemma loadModule_resume_other:
  "k \<noteq> pending_id p \<Longrightarrow>
   map_of (moduleCache (snd (loadModule_resume now p s))) k = map_of (moduleCache s) k"
  by (auto simp: loadModule_resume_def update_conv' split: sum.splits)

lemma loadModule_has:
  "has (moduleCache s) k \<Longrightarrow> has (moduleCache (snd (loadModule h now wasmData cfg s))) k"
  by (auto simp: loadModule_def Let_def has_update split: if_splits sum.splits)

text \<open>
  Claim C7, as stated: a cached module that a live instance still references is never
  removed from the cache. In the state of the example one registered instance was
  created from the module, the module is cached, and \<open>clearCache\<close> removes it.
\<close>

theorem clearCache_removes_referenced_module:
  "referenceCount demo_leaked demo_id = 1
   \<and> has (moduleCache demo_leaked) demo_id
   \<and> \<not> has (moduleCache (clearCache demo_leaked)) demo_id
   \<and> referenceCount (clearCache demo_leaked) demo_id = 1"
  by (simp add: referenceCount_def demo_leaked_def has_def clearCache_def)

text \<open>
  Claim C7, amended: the cache has no reference counts and no eviction. \<open>clearCache\<close>
  removes every entry, whether registered instances were created from it or not, and it
  is the only operation that removes a key. \<open>executeFunction\<close>, \<open>cleanupInstances\<close> and
  the first half of \<open>loadModule\<close> leave the cache as it is; the second half of
  \<open>loadModule\<close>, after the compilation, stores its record under its own key, in place
  of a record stored there in the meantime, and leaves the records under all other keys
  as they are. So no call of \<open>loadModule\<close>, interleaved with others or not, removes
  a key.
\<close>

theorem moduleCache_removal:
  "moduleCache (clearCache s) = []
   \<and> activeInstances (clearCache s) = activeInstances s
   \<and> moduleCache (snd (executeFunction h rd mid fname args xcfg s)) = moduleCache s
   \<and> moduleCache (cleanupInstances now s) = moduleCache s
   \<and> moduleCache (snd (loadModule_start h wasmData cfg s)) = moduleCache s
   \<and> (\<forall>k. has (moduleCache s) k \<longrightarrow> has (moduleCache (snd (loadModule_resume now p s))) k)
   \<and> (\<forall>k. k \<noteq> pending_id p \<longrightarrow>
         map_of (moduleCache (snd (loadModule_resume now p s))) k = map_of (moduleCache s) k)
   \<and> (\<forall>k. has (moduleCache s) k \<longrightarrow>
         has (moduleCache (snd (loadModule h now wasmData cfg s))) k)"
  by (simp add: clearCache_def executeFunction_snd try_moduleCache cleanupInstances_def
      loadModule_start_moduleCache loadModule_resume_has loadModule_resume_other loadModule_has)

text \<open>
  The second half of a \<open>loadModule\<close> call that finishes when the key is already cached:
  the key stays, with the record of this call (loaded at 2000) in place of the earlier
  one (loaded at 1000).
\<close>

theorem moduleCache_removal_witness:
  "map_of (moduleCache demo_loaded) demo_id =
     Some \<lparr>cached_module = 8, config = no_module_config, loadedAt = 1000, size_bytes = 8\<rparr>
   \<and> has (moduleCache demo_loaded) demo_id
   \<and> has (moduleCache (snd (loadModule_resume 2000
        \<lparr>pending_id = demo_id, pending_config = no_module_config, pending_size = 8,
         pending_compiled = Inr 8\<rparr> demo_loaded))) demo_id
   \<and> map_of (moduleCache (snd (loadModule_resume 2000
        \<lparr>pending_id = demo_id, pending_config = no_module_config, pending_size = 8,
         pending_compiled = Inr 8\<rparr> demo_loaded))) demo_id =
     Some \<lparr>cached_module = 8, config = no_module_config, loadedAt = 2000, size_bytes = 8\<rparr>
   \<and> moduleCache (clearCache demo_loaded) = []"
proof -
  have a: "has (moduleCache demo_loaded) demo_id"
    by (simp add: has_def demo_loaded_def)
  have b: "map_of (moduleCache demo_loaded) demo_id =
     Some \<lparr>cached_module = 8, config = no_module_config, loadedAt = 1000, size_bytes = 8\<rparr>"
    by (simp add: demo_loaded_def)
  have c: "map_of (moduleCache (snd (loadModule_resume 2000
        \<lparr>pending_id = demo_id, pending_config = no_module_config, pending_size = 8,
         pending_compiled = Inr 8\<rparr> demo_loaded))) demo_id =
     Some \<lparr>cached_module = 8, config = no_module_config, loadedAt = 2000, size_bytes = 8\<rparr>"
    by (simp add: loadModule_resume_def update_conv')
  from a b c
    moduleCache_removal [where s = demo_loaded and now = 2000
      and p = "\<lparr>pending_id = demo_id, pending_config = no_module_config, pending_size = 8,
                 pending_compiled = Inr 8\<rparr>"]
  show ?thesis by blast
qed

end
